theory Spec2Isabelle
  imports Main
begin

section \<open>The scraper of \<^verbatim>\<open>src/s1.py\<close>: locate, clean, convert\<close>

text \<open>
  The module is a thin pipeline over four third-party packages (Playwright, BeautifulSoup,
  lxml, markdownify). None of them is part of the repository, so none of them is modelled:
  every call into them is a field of the record \<open>lib\<close> below and the functions of
  \<^verbatim>\<open>s1.py\<close> take that record as their first argument. What is embedded is the code of
  the module itself: its guards, its loop over the selectors, the fallback, the order of the
  stages, what it prints and what it returns or lets propagate. The module has one
  \<^verbatim>\<open>try\<close>, around the fetch; an exception of any other call leaves the function that made
  the call, and every function above it.

  A Python call that raises is a value \<open>Inl e\<close>; a call that returns \<open>v\<close> is \<open>Inr v\<close>.
  \<^verbatim>\<open>None\<close> is \<open>None\<close> of an option type. Standard output is the list of the lines printed,
  oldest first.
\<close>

subsection \<open>Values\<close>

datatype py_exn = PyExn (exn_class: string) (exn_message: string)

text \<open>The keyword arguments of \<^verbatim>\<open>lxml.html.clean.Cleaner(...)\<close> at lines 61-67.\<close>

record cleaner =
  style :: bool
  links :: bool
  add_nofollow :: bool
  page_structure :: bool
  safe_attrs_only :: bool

text \<open>The keyword arguments of \<^verbatim>\<open>markdownify.MarkdownConverter(...)\<close> at lines 83-89.\<close>

record converter =
  escape_underscores :: bool
  substitutions :: "(string \<times> string) list"

text \<open>
  The calls into the packages. \<open>'soup\<close> is a parsed document of BeautifulSoup, \<open>'tag\<close> one
  of its elements, \<open>'tree\<close> an lxml element.
  \<^item> \<open>page_content url\<close>: the body of the \<^verbatim>\<open>with sync_playwright()\<close> block (launch, goto,
    content, close); \<open>Inl\<close> when any of them raises.
  \<^item> \<open>BeautifulSoup markup parser\<close>: the constructor, which builds the whole tree; \<open>Inl\<close>
    when the parser rejects the markup.
  \<^item> \<open>select soup sel\<close>: the elements of the document that match the CSS selector, in
    document order.
  \<^item> \<open>find_tag soup name\<close>: \<^verbatim>\<open>soup.find(name)\<close>.
  \<^item> \<open>str_of_tag t\<close>: \<^verbatim>\<open>str(t)\<close>.
  \<^item> \<open>fromstring\<close>, \<open>Cleaner_clean_html\<close>, \<open>tostring\<close>: \<^verbatim>\<open>lxml.html.fromstring\<close>,
    \<^verbatim>\<open>Cleaner(...).clean_html\<close> and \<^verbatim>\<open>lxml.html.tostring(_, pretty_print, encoding)\<close>.
  \<^item> \<open>MarkdownConverter_convert\<close>: \<^verbatim>\<open>MarkdownConverter(...).convert\<close>.
  The three calls on a tree that the constructor has built (\<open>select\<close> with one of the six
  fixed selectors, \<open>find_tag\<close>, \<open>str_of_tag\<close>) return.
\<close>

record ('soup, 'tag, 'tree) lib =
  page_content :: "string \<Rightarrow> py_exn + string"
  BeautifulSoup :: "string \<Rightarrow> string \<Rightarrow> py_exn + 'soup"
  select :: "'soup \<Rightarrow> string \<Rightarrow> 'tag list"
  find_tag :: "'soup \<Rightarrow> string \<Rightarrow> 'tag option"
  str_of_tag :: "'tag \<Rightarrow> string"
  fromstring :: "string \<Rightarrow> py_exn + 'tree"
  Cleaner_clean_html :: "cleaner \<Rightarrow> 'tree \<Rightarrow> py_exn + 'tree"
  tostring :: "'tree \<Rightarrow> bool \<Rightarrow> string \<Rightarrow> py_exn + string"
  MarkdownConverter_convert :: "converter \<Rightarrow> string \<Rightarrow> py_exn + string"

text \<open>
  Modelled from the spec: \<^verbatim>\<open>soup.select_one\<close> (BeautifulSoup, not under src/). Section 4.1:
  "if multiple elements match one selector, the first in document order is chosen"; with no
  match it is \<^verbatim>\<open>None\<close>.
\<close>

definition select_one :: "('soup, 'tag, 'tree) lib \<Rightarrow> 'soup \<Rightarrow> string \<Rightarrow> 'tag option" where
  "select_one L soup sel = (case select L soup sel of [] \<Rightarrow> None | t # _ \<Rightarrow> Some t)"



subsection \<open>\<^verbatim>\<open>get_page_source_with_js\<close> (lines 8-23)\<close>

text \<open>
  \<^verbatim>\<open>except Exception as e\<close> prints one line and returns \<^verbatim>\<open>None\<close>. The result is the
  lines printed and the value returned.
\<close>

definition get_page_source_with_js ::
  "('soup, 'tag, 'tree) lib \<Rightarrow> string \<Rightarrow> string list \<times> string option" where
  "get_page_source_with_js L url =
     (case page_content L url of
        Inr html_content \<Rightarrow> ([], Some html_content)
      | Inl e \<Rightarrow> ([''Error with Playwright: '' @ exn_message e], None))"

subsection \<open>\<^verbatim>\<open>extract_main_content\<close> (lines 25-52)\<close>

definition main_selectors :: "string list" where
  "main_selectors = [''main'', ''article'', ''.main'', ''#main'', ''.content'', ''#content'']"

text \<open>
  The \<^verbatim>\<open>for\<close> loop of lines 43-46. \<open>main_div\<close> is the variable of that name: each turn
  assigns it, and \<^verbatim>\<open>if main_div: break\<close> leaves the loop. An element of BeautifulSoup is
  true whatever it contains, so the test is \<open>main_div \<noteq> None\<close>.
\<close>

fun select_loop ::
  "('soup, 'tag, 'tree) lib \<Rightarrow> 'soup \<Rightarrow> string list \<Rightarrow> 'tag option \<Rightarrow> 'tag option" where
  "select_loop L soup [] main_div = main_div"
| "select_loop L soup (selector # rest) main_div =
     (let main_div' = select_one L soup selector
      in if main_div' \<noteq> None then main_div' else select_loop L soup rest main_div')"

text \<open>
  Line 30 is outside any \<^verbatim>\<open>try\<close>: when the constructor raises, the function is left with
  that exception (\<open>Inl\<close>). Otherwise it returns (\<open>Inr\<close>) a string or \<^verbatim>\<open>None\<close>.
\<close>

definition extract_main_content ::
  "('soup, 'tag, 'tree) lib \<Rightarrow> string \<Rightarrow> py_exn + string option" where
  "extract_main_content L html_content =
     (case BeautifulSoup L html_content ''html.parser'' of
        Inl e \<Rightarrow> Inl e
      | Inr soup \<Rightarrow>
          (let main_div = select_loop L soup main_selectors None;
               main_div = (if main_div = None then find_tag L soup ''body'' else main_div)
           in Inr (case main_div of Some t \<Rightarrow> Some (str_of_tag L t) | None \<Rightarrow> None)))"

subsection \<open>\<^verbatim>\<open>clean_html\<close> (lines 54-72)\<close>

definition the_cleaner :: cleaner where
  "the_cleaner = \<lparr>style = True, links = True, add_nofollow = True,
                   page_structure = False, safe_attrs_only = False\<rparr>"

text \<open>
  There is no \<^verbatim>\<open>try\<close> in the function: an exception of any of the three lxml calls leaves
  it as it was raised.
\<close>

definition clean_html :: "('soup, 'tag, 'tree) lib \<Rightarrow> string \<Rightarrow> py_exn + string" where
  "clean_html L html_string =
     (if html_string = [] then Inr []
      else case fromstring L html_string of
             Inl e \<Rightarrow> Inl e
           | Inr tree \<Rightarrow>
               (case Cleaner_clean_html L the_cleaner tree of
                  Inl e \<Rightarrow> Inl e
                | Inr cleaned_tree \<Rightarrow> tostring L cleaned_tree True ''unicode''))"

subsection \<open>\<^verbatim>\<open>convert_to_markdown_with_details\<close> (lines 74-93)\<close>

definition md_converter :: converter where
  "md_converter = \<lparr>escape_underscores = False,
     substitutions = [(''h1'', ''##''), (''h2'', ''###''), (''h3'', ''####''),
                      (''h4'', ''#####''), (''h5'', ''######''), (''h6'', ''#######'')]\<rparr>"

definition convert_to_markdown_with_details ::
  "('soup, 'tag, 'tree) lib \<Rightarrow> string \<Rightarrow> py_exn + string" where
  "convert_to_markdown_with_details L html_string =
     (if html_string = [] then Inr []
      else MarkdownConverter_convert L md_converter html_string)"

subsection \<open>\<^verbatim>\<open>scrape_robustly\<close> (lines 95-119)\<close>

text \<open>\<^verbatim>\<open>not x\<close> for a value that is \<^verbatim>\<open>None\<close> or a string.\<close>

definition py_not :: "string option \<Rightarrow> bool" where
  "py_not x = (case x of None \<Rightarrow> True | Some s \<Rightarrow> s = [])"

text \<open>
  The result is the lines printed and either the string returned (\<open>Inr\<close>) or the exception
  that left the function (\<open>Inl\<close>). The two messages of lines 103 and 109 are returned like
  the Markdown of line 119: as a \<^verbatim>\<open>str\<close>. Lines 107, 113 and 117 are outside any
  \<^verbatim>\<open>try\<close>: an exception of a stage leaves \<open>scrape_robustly\<close> with the lines printed so
  far. \<open>the\<close> is applied only where the guard before it has excluded \<^verbatim>\<open>None\<close>.
\<close>

definition scrape_robustly ::
  "('soup, 'tag, 'tree) lib \<Rightarrow> string \<Rightarrow> string list \<times> (py_exn + string)" where
  "scrape_robustly L url =
     (let out1 = [''Fetching page with Playwright...''];
          (printed, html_with_js) = get_page_source_with_js L url;
          out1 = out1 @ printed
      in if py_not html_with_js then (out1, Inr ''Failed to fetch content.'')
         else
           let out2 = out1 @ [''Identifying main content area...'']
           in case extract_main_content L (the html_with_js) of
                Inl e \<Rightarrow> (out2, Inl e)
              | Inr main_content_html \<Rightarrow>
                  if py_not main_content_html
                  then (out2, Inr ''Could not identify main content.'')
                  else
                    let out3 = out2 @ [''Cleaning HTML...'']
                    in case clean_html L (the main_content_html) of
                         Inl e \<Rightarrow> (out3, Inl e)
                       | Inr cleaned_html \<Rightarrow>
                           (out3 @ [''Converting to Markdown...''],
                            convert_to_markdown_with_details L cleaned_html))"

subsection \<open>The locator as section 4.1 of the spec words it\<close>

text \<open>
  On a parsed document: the first selector of the priority list with a match decides, and of
  its matches the first in document order; with no such selector the \<^verbatim>\<open>body\<close> element;
  without one, nothing.
\<close>

definition locate_spec :: "('soup, 'tag, 'tree) lib \<Rightarrow> 'soup \<Rightarrow> string option" where
  "locate_spec L soup =
     (case filter (\<lambda>sel. select L soup sel \<noteq> [])
             [''main'', ''article'', ''.main'', ''#main'', ''.content'', ''#content''] of
        sel # _ \<Rightarrow> Some (str_of_tag L (hd (select L soup sel)))
      | [] \<Rightarrow> map_option (str_of_tag L) (find_tag L soup ''body''))"

subsection \<open>A library instance to evaluate the module on\<close>

text \<open>
  The functions above run once the record is given. \<open>toy_lib\<close> tabulates what the packages
  do on the inputs of the statements below:
  \<^item> five pages: the empty page; \<^verbatim>\<open>Just text\<close>, in which the parser finds no element; a
    page whose \<^verbatim>\<open>#content\<close> element comes before its two \<^verbatim>\<open>article\<close> elements; a page
    whose body holds one comment; a page with an unknown marked section after its
    \<^verbatim>\<open>main\<close> element, which \<^verbatim>\<open>html.parser\<close> rejects;
  \<^item> a parsed document is the table of the matches, in document order, of each selector
    and tag name that matches anything;
  \<^item> \<^verbatim>\<open>html.fromstring\<close> raises on a fragment of one blank (the document is empty) and
    returns the comment for the body that holds nothing else; the cleaner raises on a tree
    that is a comment.
  On every other input the lxml calls and the converter of \<open>toy_lib\<close> hand their argument
  back; no statement below reads those values. Of the exceptions only that of
  \<^verbatim>\<open>html.fromstring\<close> carries its message; the messages of the others are left empty.
\<close>

definition toy_pages :: "string \<Rightarrow> py_exn + string" where
  "toy_pages url =
     (if url = ''http://t/empty'' then Inr []
      else if url = ''http://t/text'' then Inr ''Just text''
      else if url = ''http://t/articles'' then
        Inr ''<body><div id=content>C</div><article>A</article><article>B</article></body>''
      else if url = ''http://t/comment'' then Inr ''<body><!-- c --></body>''
      else if url = ''http://t/marked'' then Inr ''<main>x</main><![foo bar]>''
      else Inl (PyExn ''Error'' ''net::ERR_NAME_NOT_RESOLVED''))"

definition toy_soup :: "string \<Rightarrow> string \<Rightarrow> py_exn + (string \<times> string list) list" where
  "toy_soup markup parser =
     (if markup = ''<body><div id=content>C</div><article>A</article><article>B</article></body>''
      then Inr [(''article'', [''<article>A</article>'', ''<article>B</article>'']),
                (''#content'', [''<div id=content>C</div>'']),
                (''body'', [markup])]
      else if markup = ''<body><!-- c --></body>''
      then Inr [(''body'', [markup])]
      else if markup = ''<main>x</main><![foo bar]>''
      then Inl (PyExn ''ParserRejectedMarkup'' [])
      else Inr [])"

definition toy_matches :: "(string \<times> string list) list \<Rightarrow> string \<Rightarrow> string list" where
  "toy_matches soup sel = (case map_of soup sel of Some ms \<Rightarrow> ms | None \<Rightarrow> [])"

definition toy_fromstring :: "string \<Rightarrow> py_exn + string" where
  "toy_fromstring s =
     (if s = '' '' then Inl (PyExn ''ParserError'' ''Document is empty'')
      else if s = ''<body><!-- c --></body>'' then Inr ''<!-- c -->''
      else Inr s)"

definition toy_clean :: "cleaner \<Rightarrow> string \<Rightarrow> py_exn + string" where
  "toy_clean c tree =
     (if tree = ''<!-- c -->'' then Inl (PyExn ''ValueError'' []) else Inr tree)"

definition toy_lib :: "((string \<times> string list) list, string, string) lib" where
  "toy_lib =
     \<lparr>page_content = toy_pages,
      BeautifulSoup = toy_soup,
      select = toy_matches,
      find_tag = (\<lambda>soup name. case toy_matches soup name of [] \<Rightarrow> None | m # _ \<Rightarrow> Some m),
      str_of_tag = (\<lambda>t. t),
      fromstring = toy_fromstring,
      Cleaner_clean_html = toy_clean,
      tostring = (\<lambda>t pretty_print encoding. Inr t),
      MarkdownConverter_convert = (\<lambda>c s. Inr s)\<rparr>"

section \<open>Properties\<close>

subsection \<open>The selector loop\<close>

lemma select_one_None: "select_one L soup sel = None \<longleftrightarrow> select L soup sel = []"
  by (simp add: select_one_def split: list.splits)

lemma select_one_hd:
  "select L soup sel \<noteq> [] \<Longrightarrow> select_one L soup sel = Some (hd (select L soup sel))"
  by (cases "select L soup sel") (simp_all add: select_one_def)

lemma select_loop_first:
  "select_loop L soup sels None =
     (case filter (\<lambda>sel. select L soup sel \<noteq> []) sels of
        [] \<Rightarrow> None
      | sel # _ \<Rightarrow> Some (hd (select L soup sel)))"
proof (induction sels)
  case Nil
  show ?case by simp
next
  case (Cons s sels)
  show ?case
  proof (cases "select L soup s = []")
    case True
    then have "select_one L soup s = None" by (simp add: select_one_None)
    with True Cons show ?thesis by simp
  next
    case False
    then show ?thesis by (simp add: select_one_hd)
  qed
qed

lemma extract_main_content_parsed:
  assumes "BeautifulSoup L document ''html.parser'' = Inr soup"
  shows "extract_main_content L document = Inr (locate_spec L soup)"
proof -
  let ?hits = "filter (\<lambda>sel. select L soup sel \<noteq> []) main_selectors"
  show ?thesis
  proof (cases ?hits)
    case Nil
    then have "select_loop L soup main_selectors None = None"
      by (simp add: select_loop_first)
    moreover from Nil have "locate_spec L soup = map_option (str_of_tag L) (find_tag L soup ''body'')"
      by (simp add: locate_spec_def main_selectors_def)
    ultimately show ?thesis using assms
      by (simp add: extract_main_content_def Let_def split: option.splits)
  next
    case (Cons sel rest)
    then have "select_loop L soup main_selectors None = Some (hd (select L soup sel))"
      by (simp add: select_loop_first)
    moreover from Cons have "locate_spec L soup = Some (str_of_tag L (hd (select L soup sel)))"
      by (simp add: locate_spec_def main_selectors_def)
    ultimately show ?thesis using assms
      by (simp add: extract_main_content_def Let_def)
  qed
qed

lemma extract_main_content_rejected:
  "BeautifulSoup L document ''html.parser'' = Inl e \<Longrightarrow> extract_main_content L document = Inl e"
  by (simp add: extract_main_content_def)

lemma locate_spec_None:
  assumes "\<forall>sel \<in> set main_selectors. select L soup sel = []"
    and "find_tag L soup ''body'' = None"
  shows "locate_spec L soup = None"
proof -
  from assms(1) have "filter (\<lambda>sel. select L soup sel \<noteq> [])
      [''main'', ''article'', ''.main'', ''#main'', ''.content'', ''#content''] = []"
    by (simp add: filter_empty_conv main_selectors_def)
  with assms(2) show ?thesis by (simp add: locate_spec_def)
qed

text \<open>
  C4, as the code has it. For every document that the parser accepts, \<open>extract_main_content\<close>
  returns what the locator of the spec returns on the parsed document: the string of the
  first match (in document order) of the first selector, in the order main, article, .main,
  #main, .content, #content, that matches anything; with no matching selector the string of
  the body element; with no body element \<open>None\<close>. For a document that the parser rejects it
  returns nothing: the parser's exception leaves it as it was raised.
\<close>

theorem extract_main_content_locate_spec:
  "extract_main_content L document =
     (case BeautifulSoup L document ''html.parser'' of
        Inl e \<Rightarrow> Inl e
      | Inr soup \<Rightarrow> Inr (locate_spec L soup))"
proof (cases "BeautifulSoup L document ''html.parser''")
  case (Inl e)
  then show ?thesis by (simp add: extract_main_content_rejected)
next
  case (Inr soup)
  then show ?thesis by (simp add: extract_main_content_parsed)
qed

theorem extract_main_content_locate_witness:
  "extract_main_content toy_lib
     ''<body><div id=content>C</div><article>A</article><article>B</article></body>''
   = Inr (Some ''<article>A</article>'')
   \<and> extract_main_content toy_lib ''<main>x</main><![foo bar]>''
   = Inl (PyExn ''ParserRejectedMarkup'' [])"
  using extract_main_content_locate_spec [of toy_lib
      "''<body><div id=content>C</div><article>A</article><article>B</article></body>''"]
    extract_main_content_locate_spec [of toy_lib "''<main>x</main><![foo bar]>''"]
  by (simp add: locate_spec_def toy_lib_def toy_soup_def toy_matches_def)

text \<open>
  The claim as the spec words it has a match returned for every document. The document
  below has a \<^verbatim>\<open>main\<close> element, and the locator raises on it.
\<close>

theorem extract_main_content_raises_counterexample:
  "isl (extract_main_content toy_lib ''<main>x</main><![foo bar]>'')"
  by (simp add: extract_main_content_def toy_lib_def toy_soup_def)

subsection \<open>What the stages do with a failure\<close>

lemma extract_main_content_None:
  assumes "BeautifulSoup L document ''html.parser'' = Inr soup"
    and "\<forall>sel \<in> set main_selectors. select L soup sel = []"
    and "find_tag L soup ''body'' = None"
  shows "extract_main_content L document = Inr None"
  using assms by (simp add: extract_main_content_parsed locate_spec_None)

lemma scrape_fetch_empty:
  "page_content L url = Inr [] \<Longrightarrow>
   scrape_robustly L url = ([''Fetching page with Playwright...''], Inr ''Failed to fetch content.'')"
  by (simp add: scrape_robustly_def get_page_source_with_js_def py_not_def)

lemma scrape_locator_raises:
  "page_content L url = Inr document \<Longrightarrow> document \<noteq> [] \<Longrightarrow>
   extract_main_content L document = Inl e \<Longrightarrow>
   scrape_robustly L url =
     ([''Fetching page with Playwright...'', ''Identifying main content area...''], Inl e)"
  by (simp add: scrape_robustly_def get_page_source_with_js_def py_not_def)

lemma scrape_absent:
  "page_content L url = Inr document \<Longrightarrow> document \<noteq> [] \<Longrightarrow>
   extract_main_content L document = Inr r \<Longrightarrow> py_not r \<Longrightarrow>
   scrape_robustly L url =
     ([''Fetching page with Playwright...'', ''Identifying main content area...''],
      Inr ''Could not identify main content.'')"
  by (simp add: scrape_robustly_def get_page_source_with_js_def py_not_def)

lemma scrape_clean_raises:
  "page_content L url = Inr document \<Longrightarrow> document \<noteq> [] \<Longrightarrow>
   extract_main_content L document = Inr (Some m) \<Longrightarrow> m \<noteq> [] \<Longrightarrow> clean_html L m = Inl e \<Longrightarrow>
   scrape_robustly L url =
     ([''Fetching page with Playwright...'', ''Identifying main content area...'',
       ''Cleaning HTML...''], Inl e)"
  by (simp add: scrape_robustly_def get_page_source_with_js_def py_not_def)

text \<open>The library instance, evaluated.\<close>

lemma toy_parsed_empty:
  "BeautifulSoup toy_lib [] parser = Inr [] \<and> BeautifulSoup toy_lib ''Just text'' parser = Inr []"
  by (simp add: toy_lib_def toy_soup_def)

lemma toy_no_match: "select toy_lib [] sel = [] \<and> find_tag toy_lib [] name = None"
  by (simp add: toy_lib_def toy_matches_def)

lemma toy_text_absent: "extract_main_content toy_lib ''Just text'' = Inr None"
  by (simp add: extract_main_content_def toy_lib_def toy_soup_def toy_matches_def
      main_selectors_def select_one_def)

lemma toy_comment_located:
  "extract_main_content toy_lib ''<body><!-- c --></body>'' = Inr (Some ''<body><!-- c --></body>'')"
  by (simp add: extract_main_content_def toy_lib_def toy_soup_def toy_matches_def
      main_selectors_def select_one_def)

lemma toy_marked_rejected:
  "extract_main_content toy_lib ''<main>x</main><![foo bar]>'' = Inl (PyExn ''ParserRejectedMarkup'' [])"
  by (simp add: extract_main_content_def toy_lib_def toy_soup_def)

lemma toy_comment_clean_raises:
  "clean_html toy_lib ''<body><!-- c --></body>'' = Inl (PyExn ''ValueError'' [])"
  by (simp add: clean_html_def toy_lib_def toy_fromstring_def toy_clean_def)

lemma toy_page_content:
  "page_content toy_lib ''http://t/empty'' = Inr []"
  "page_content toy_lib ''http://t/text'' = Inr ''Just text''"
  "page_content toy_lib ''http://t/comment'' = Inr ''<body><!-- c --></body>''"
  "page_content toy_lib ''http://t/marked'' = Inr ''<main>x</main><![foo bar]>''"
  by (simp_all add: toy_lib_def toy_pages_def)

text \<open>
  C2, as the code has it. \<open>clean_html\<close> has no error value to return and catches nothing:
  for every fragment other than the empty string on which \<^verbatim>\<open>html.fromstring\<close> raises, that
  exception leaves \<open>clean_html\<close> as it was raised, so that nothing is returned, neither an
  error value nor an empty string. The empty fragment returns the empty string, without a
  parse.
\<close>

theorem clean_html_parse_failure_propagates:
  "(html_string \<noteq> [] \<and> fromstring L html_string = Inl e \<longrightarrow> clean_html L html_string = Inl e)
   \<and> clean_html L [] = Inr []"
  by (simp add: clean_html_def)

theorem clean_html_parse_failure_witness:
  "'' '' \<noteq> [] \<and> fromstring toy_lib '' '' = Inl (PyExn ''ParserError'' ''Document is empty'')
   \<and> clean_html toy_lib '' '' = Inl (PyExn ''ParserError'' ''Document is empty'')
   \<and> clean_html toy_lib [] = Inr []"
  using clean_html_parse_failure_propagates
    [of "'' ''" toy_lib "PyExn ''ParserError'' ''Document is empty''"]
  by (simp add: toy_lib_def toy_fromstring_def)

text \<open>
  The claim as the spec words it asks for a returned error value. On a fragment of one
  blank, which \<^verbatim>\<open>html.fromstring\<close> rejects as an empty document, the result of \<open>clean_html\<close>
  is the parser's exception, raised.
\<close>

theorem clean_html_uncaught_counterexample:
  "clean_html toy_lib '' '' = Inl (PyExn ''ParserError'' ''Document is empty'')"
  by (simp add: clean_html_def toy_lib_def toy_fromstring_def)

text \<open>
  C3, as the code has it. On a page that was fetched and is not empty: when the locator
  returns \<open>None\<close>, \<open>scrape_robustly\<close> stops after the second stage and returns the string of
  line 109; when the locator raises, \<open>scrape_robustly\<close> stops in the second stage and the
  exception leaves it as it was raised; when \<open>clean_html\<close> raises, \<open>scrape_robustly\<close> stops in
  the third stage and the exception leaves it as it was raised. In all three cases the
  fourth stage has not begun (its line is not printed) and what comes back is no output of
  the converter.
\<close>

theorem scrape_robustly_halts_on_failure:
  assumes "page_content L url = Inr document" and "document \<noteq> []"
  shows "(extract_main_content L document = Inr None \<longrightarrow>
            scrape_robustly L url =
              ([''Fetching page with Playwright...'', ''Identifying main content area...''],
               Inr ''Could not identify main content.''))
       \<and> (extract_main_content L document = Inl e \<longrightarrow>
            scrape_robustly L url =
              ([''Fetching page with Playwright...'', ''Identifying main content area...''],
               Inl e))
       \<and> (extract_main_content L document = Inr (Some m) \<and> m \<noteq> [] \<and> clean_html L m = Inl e \<longrightarrow>
            scrape_robustly L url =
              ([''Fetching page with Playwright...'', ''Identifying main content area...'',
                ''Cleaning HTML...''], Inl e))"
proof (intro conjI impI)
  assume "extract_main_content L document = Inr None"
  moreover have "py_not None" by (simp add: py_not_def)
  ultimately show "scrape_robustly L url =
      ([''Fetching page with Playwright...'', ''Identifying main content area...''],
       Inr ''Could not identify main content.'')"
    using assms by (simp add: scrape_absent)
next
  assume "extract_main_content L document = Inl e"
  with assms show "scrape_robustly L url =
      ([''Fetching page with Playwright...'', ''Identifying main content area...''], Inl e)"
    by (rule scrape_locator_raises)
next
  assume "extract_main_content L document = Inr (Some m) \<and> m \<noteq> [] \<and> clean_html L m = Inl e"
  with assms show "scrape_robustly L url =
      ([''Fetching page with Playwright...'', ''Identifying main content area...'',
        ''Cleaning HTML...''], Inl e)"
    by (simp add: scrape_clean_raises)
qed

theorem scrape_robustly_halts_witness:
  "scrape_robustly toy_lib ''http://t/text'' =
     ([''Fetching page with Playwright...'', ''Identifying main content area...''],
      Inr ''Could not identify main content.'')
   \<and> scrape_robustly toy_lib ''http://t/marked'' =
     ([''Fetching page with Playwright...'', ''Identifying main content area...''],
      Inl (PyExn ''ParserRejectedMarkup'' []))
   \<and> scrape_robustly toy_lib ''http://t/comment'' =
     ([''Fetching page with Playwright...'', ''Identifying main content area...'',
       ''Cleaning HTML...''], Inl (PyExn ''ValueError'' []))"
proof (intro conjI)
  have "''Just text'' \<noteq> []" by simp
  then show "scrape_robustly toy_lib ''http://t/text'' =
     ([''Fetching page with Playwright...'', ''Identifying main content area...''],
      Inr ''Could not identify main content.'')"
    using scrape_robustly_halts_on_failure [of toy_lib "''http://t/text''" "''Just text''"]
      toy_page_content(2) toy_text_absent by blast
next
  have "''<main>x</main><![foo bar]>'' \<noteq> []" by simp
  then show "scrape_robustly toy_lib ''http://t/marked'' =
     ([''Fetching page with Playwright...'', ''Identifying main content area...''],
      Inl (PyExn ''ParserRejectedMarkup'' []))"
    using scrape_robustly_halts_on_failure
      [of toy_lib "''http://t/marked''" "''<main>x</main><![foo bar]>''"
          "PyExn ''ParserRejectedMarkup'' []"]
      toy_page_content(4) toy_marked_rejected by blast
next
  have "''<body><!-- c --></body>'' \<noteq> []" by simp
  then show "scrape_robustly toy_lib ''http://t/comment'' =
     ([''Fetching page with Playwright...'', ''Identifying main content area...'',
       ''Cleaning HTML...''], Inl (PyExn ''ValueError'' []))"
    using scrape_robustly_halts_on_failure
      [of toy_lib "''http://t/comment''" "''<body><!-- c --></body>''"
          "PyExn ''ValueError'' []" "''<body><!-- c --></body>''"]
      toy_page_content(3) toy_comment_located toy_comment_clean_raises by blast
qed

text \<open>
  The claim as the spec words it asks for a returned value that names the stage. On the page
  whose body holds one comment the locator returns the body, \<^verbatim>\<open>html.fromstring\<close> returns
  the comment and the cleaner raises on it: three lines are printed, and what leaves
  \<open>scrape_robustly\<close> is that exception, raised. Nothing is returned, and nothing in the
  exception names a stage.
\<close>

theorem scrape_robustly_uncaught_counterexample:
  "fst (scrape_robustly toy_lib ''http://t/comment'') =
     [''Fetching page with Playwright...'', ''Identifying main content area...'',
      ''Cleaning HTML...'']
   \<and> isl (snd (scrape_robustly toy_lib ''http://t/comment''))"
proof -
  have "''<body><!-- c --></body>'' \<noteq> []" by simp
  then have "scrape_robustly toy_lib ''http://t/comment'' =
     ([''Fetching page with Playwright...'', ''Identifying main content area...'',
       ''Cleaning HTML...''], Inl (PyExn ''ValueError'' []))"
    using toy_page_content(3) toy_comment_located toy_comment_clean_raises
    by (simp add: scrape_clean_raises)
  then show ?thesis by simp
qed

text \<open>
  C9, as the code has it. When the page fetched is the empty string, the guard of line 102
  returns the message of the fetch stage: \<open>scrape_robustly\<close> has printed its first line only,
  and neither the locator, the sanitizer nor the converter has run. The locator itself, given
  the empty string, returns \<open>None\<close> when the parser finds in it no match of a selector and no
  body element.
\<close>

theorem scrape_robustly_empty_page:
  "(page_content L url = Inr [] \<longrightarrow>
      scrape_robustly L url =
        ([''Fetching page with Playwright...''], Inr ''Failed to fetch content.''))
   \<and> (BeautifulSoup L [] ''html.parser'' = Inr soup
        \<and> (\<forall>sel \<in> set main_selectors. select L soup sel = [])
        \<and> find_tag L soup ''body'' = None \<longrightarrow>
      extract_main_content L [] = Inr None)"
  by (simp add: scrape_fetch_empty extract_main_content_None)

theorem scrape_robustly_empty_page_witness:
  "page_content toy_lib ''http://t/empty'' = Inr []
   \<and> scrape_robustly toy_lib ''http://t/empty'' =
        ([''Fetching page with Playwright...''], Inr ''Failed to fetch content.'')
   \<and> extract_main_content toy_lib [] = Inr None"
proof -
  have "BeautifulSoup toy_lib [] ''html.parser'' = Inr []"
    by (simp add: toy_parsed_empty)
  moreover have "\<forall>sel \<in> set main_selectors. select toy_lib [] sel = []"
    by (simp add: toy_no_match)
  moreover have "find_tag toy_lib [] ''body'' = None"
    by (simp add: toy_no_match)
  ultimately show ?thesis
    using scrape_robustly_empty_page [of toy_lib "''http://t/empty''" "[]"]
      toy_page_content(1) by blast
qed

text \<open>
  The claim as the spec words it has the locator run and the outcome be the locator's. On
  the empty page the outcome is the message of the fetch stage, not the message of the
  locator, and the line that precedes the locator is not printed.
\<close>

theorem scrape_robustly_empty_page_counterexample:
  "snd (scrape_robustly toy_lib ''http://t/empty'') = Inr ''Failed to fetch content.''
   \<and> snd (scrape_robustly toy_lib ''http://t/empty'') \<noteq> Inr ''Could not identify main content.''
   \<and> ''Identifying main content area...'' \<notin> set (fst (scrape_robustly toy_lib ''http://t/empty''))"
  using toy_page_content(1) by (simp add: scrape_fetch_empty)

text \<open>
  C10. A page that is not empty can still end in the outcome "no content": when the parser
  accepts the document, finds in it no match of any of the six selectors and makes no body
  element (as for text without a tag), the locator returns \<open>None\<close> and \<open>scrape_robustly\<close>
  returns the message of line 109 after its second stage.
\<close>

theorem nonempty_document_absent:
  assumes "page_content L url = Inr document" and "document \<noteq> []"
    and "BeautifulSoup L document ''html.parser'' = Inr soup"
    and "\<forall>sel \<in> set main_selectors. select L soup sel = []"
    and "find_tag L soup ''body'' = None"
  shows "extract_main_content L document = Inr None
       \<and> scrape_robustly L url =
           ([''Fetching page with Playwright...'', ''Identifying main content area...''],
            Inr ''Could not identify main content.'')"
proof -
  from assms(3,4,5) have absent: "extract_main_content L document = Inr None"
    by (rule extract_main_content_None)
  moreover have "py_not None" by (simp add: py_not_def)
  ultimately show ?thesis using assms(1,2) by (simp add: scrape_absent)
qed

theorem nonempty_document_absent_witness:
  "''Just text'' \<noteq> []
   \<and> extract_main_content toy_lib ''Just text'' = Inr None
   \<and> scrape_robustly toy_lib ''http://t/text'' =
        ([''Fetching page with Playwright...'', ''Identifying main content area...''],
         Inr ''Could not identify main content.'')"
proof -
  have "''Just text'' \<noteq> []" by simp
  moreover have "BeautifulSoup toy_lib ''Just text'' ''html.parser'' = Inr []"
    by (simp add: toy_parsed_empty)
  moreover have "\<forall>sel \<in> set main_selectors. select toy_lib [] sel = []"
    by (simp add: toy_no_match)
  moreover have "find_tag toy_lib [] ''body'' = None"
    by (simp add: toy_no_match)
  ultimately show ?thesis
    using nonempty_document_absent [of toy_lib "''http://t/text''" "''Just text''" "[]"]
      toy_page_content(2) by blast
qed

subsection \<open>What the module hands to the converter\<close>

text \<open>
  The table of line 85-88 gives the heading of level \<open>k\<close> a token of \<open>k + 1\<close> marks. The
  module passes it to the constructor under the keyword \<^verbatim>\<open>substitutions\<close>; what the
  converter makes of it is the converter's.
\<close>

lemma md_converter_heading_tokens:
  "substitutions md_converter =
     [(''h1'', replicate 2 CHR ''#''), (''h2'', replicate 3 CHR ''#''),
      (''h3'', replicate 4 CHR ''#''), (''h4'', replicate 5 CHR ''#''),
      (''h5'', replicate 6 CHR ''#''), (''h6'', replicate 7 CHR ''#'')]"
  by (simp add: md_converter_def numeral_eq_Suc)

lemma convert_to_markdown_with_details_passes:
  "html_string \<noteq> [] \<Longrightarrow>
   convert_to_markdown_with_details L html_string =
     MarkdownConverter_convert L md_converter html_string"
  by (simp add: convert_to_markdown_with_details_def)

end
